theory Spec2Isabelle
  imports
    Complex_Main
    "HOL-Library.AList"
    "HOL-Library.Char_ord"
    "HOL-Library.List_Lexorder"
begin

section \<open>Stock tracking simulator: data model\<close>

text \<open>
  The program (\<open>src/main.py\<close>) keeps two module-level dictionaries:
  \<open>portfolio\<close>, from transaction id to a position dictionary, and \<open>alert_history\<close>,
  from transaction id to the list of alert events of that transaction. Python
  dictionaries iterate in insertion order, so both are association lists here; a store
  to a key (\<open>d[k] = v\<close>) is \<open>AList.update\<close>, which replaces the value of a present key
  in place and appends a new key at the end.

  Prices and percentages are Python floats in the source. They are modelled as exact
  rationals: the arithmetic of the model is the arithmetic the source writes, without
  the rounding of binary floating point. Timestamps are the strings that
  \<open>datetime.now().isoformat()\<close> returns, compared as Python compares strings
  (lexicographically, character by character).
\<close>

datatype error =
  HTTPException nat string
| ZeroDivisionError

datatype alert_kind = PROFIT | LOSS

text \<open>
  A position dictionary. The keys \<open>alert_type\<close>, \<open>alert_triggered_at\<close> and
  \<open>simulated_current_price\<close> are absent until an operation stores them, and are
  removed again with \<open>pop\<close>: they are optional fields. The other keys are stored by
  \<open>buy_stock\<close> and never removed.
\<close>

record position =
  symbol :: string
  buy_price :: rat
  bought_at :: string
  status :: string
  alert_sent :: bool
  current_price :: rat
  percent_change :: rat
  alert_type :: "alert_kind option"
  alert_triggered_at :: "string option"
  simulated_current_price :: "rat option"

text \<open>
  An alert event dictionary, with the keys \<open>timestamp\<close>, \<open>type\<close>, \<open>percent_change\<close>,
  \<open>current_price\<close> and \<open>buy_price\<close> that \<open>monitor_market\<close> stores (prefixed here,
  since three of them are also keys of a position), and the key \<open>transaction_id\<close>,
  which is absent when the event is appended.
\<close>

record alert_event =
  ev_timestamp :: string
  ev_type :: alert_kind
  ev_percent_change :: rat
  ev_current_price :: rat
  ev_buy_price :: rat
  ev_transaction_id :: "int option"

type_synonym portfolio_store = "(int \<times> position) list"
type_synonym history_store = "(int \<times> alert_event list) list"

record state =
  portfolio :: portfolio_store
  alert_history :: history_store

definition WATCHLIST :: "string list" where
  "WATCHLIST = [''RELIANCE.NS'', ''TCS.NS'', ''INF,NS'', ''HDFCBANK.NS'']"

section \<open>The price provider\<close>

text \<open>
  What the market-data library answers for one ticker: the candidate price of each of
  the four strategies of \<open>get_live_price\<close>, in the order the source tries them.
  \<open>None\<close> stands for a strategy that yields nothing: the attribute or key is missing
  or \<open>None\<close>, the history is empty, or the access raised (every strategy is wrapped
  in its own \<open>try ... except: pass\<close>).
\<close>

record quote =
  last_price :: "rat option"
  currentPrice :: "rat option"
  regularMarketPrice :: "rat option"
  minute_close :: "rat option"
  daily_close :: "rat option"

text \<open>
  Python's \<open>round(x, 2)\<close>: the nearest multiple of 1/100, a tie going to the even
  neighbour.
\<close>

definition round_half_even :: "rat \<Rightarrow> int" where
  "round_half_even x =
     (let f = \<lfloor>x\<rfloor>; d = x - of_int f
      in if d < 1 / 2 then f
         else if 1 / 2 < d then f + 1
         else if even f then f else f + 1)"

definition round2 :: "rat \<Rightarrow> rat" where
  "round2 x = of_int (round_half_even (x * 100)) / 100"

definition accept_price :: "rat \<Rightarrow> rat option" where
  \<comment> \<open>\<open>if price > 0: return round(price, 2)\<close>\<close>
  "accept_price price = (if 0 < price then Some (round2 price) else None)"

definition method1 :: "quote \<Rightarrow> rat option" where
  "method1 q = (case last_price q of None \<Rightarrow> None | Some price \<Rightarrow> accept_price price)"

definition method2 :: "quote \<Rightarrow> rat option" where
  \<comment> \<open>a present and truthy \<open>currentPrice\<close> is the only candidate of this strategy:
      the \<open>elif\<close> is tried only when \<open>currentPrice\<close> is missing or falsy\<close>
  "method2 q =
     (case currentPrice q of
        Some price \<Rightarrow>
          if price \<noteq> 0 then accept_price price
          else (case regularMarketPrice q of
                  Some price' \<Rightarrow> if price' \<noteq> 0 then accept_price price' else None
                | None \<Rightarrow> None)
      | None \<Rightarrow>
          (case regularMarketPrice q of
             Some price' \<Rightarrow> if price' \<noteq> 0 then accept_price price' else None
           | None \<Rightarrow> None))"

definition method3 :: "quote \<Rightarrow> rat option" where
  "method3 q = (case minute_close q of None \<Rightarrow> None | Some price \<Rightarrow> accept_price price)"

definition method4 :: "quote \<Rightarrow> rat option" where
  "method4 q = (case daily_close q of None \<Rightarrow> None | Some price \<Rightarrow> accept_price price)"

text \<open>
  \<open>get_live_price\<close>: the provider maps a symbol to its quote, or to \<open>None\<close> when
  building the ticker raised (the outer \<open>except\<close>, which returns \<open>None\<close>).
\<close>

definition get_live_price :: "(string \<Rightarrow> quote option) \<Rightarrow> string \<Rightarrow> rat option" where
  "get_live_price provider ticker =
     (case provider ticker of
        None \<Rightarrow> None
      | Some q \<Rightarrow>
          (case method1 q of Some p \<Rightarrow> Some p | None \<Rightarrow>
          (case method2 q of Some p \<Rightarrow> Some p | None \<Rightarrow>
          (case method3 q of Some p \<Rightarrow> Some p | None \<Rightarrow>
           method4 q))))"

section \<open>The monitor loop\<close>

text \<open>
  The outside world during one run of \<open>monitor_market\<close> or \<open>view_portfolio\<close>. The
  run makes at most one price lookup for each transaction, and reads the clock twice
  when it fires an alert (for \<open>alert_triggered_at\<close>, then for the event's
  \<open>timestamp\<close>); indexing the answers by transaction id lets every call have its
  own answer.
\<close>

record world =
  fetch :: "int \<Rightarrow> string \<Rightarrow> quote option"
  triggered_now :: "int \<Rightarrow> string"
  event_now :: "int \<Rightarrow> string"

definition compute_percent_change :: "rat \<Rightarrow> rat \<Rightarrow> error + rat" where
  \<comment> \<open>\<open>((current_price - buy_price) / buy_price) * 100\<close>; Python raises on a zero divisor\<close>
  "compute_percent_change current buy =
     (if buy = 0 then Inl ZeroDivisionError else Inr (((current - buy) / buy) * 100))"

definition classify :: "rat \<Rightarrow> alert_kind option" where
  "classify pc = (if 5 \<le> pc then Some PROFIT else if pc \<le> - 5 then Some LOSS else None)"

definition resolve_price :: "world \<Rightarrow> int \<Rightarrow> position \<Rightarrow> rat option" where
  "resolve_price w tx_id data =
     (case simulated_current_price data of
        Some simulated \<Rightarrow> Some simulated
      | None \<Rightarrow> get_live_price (fetch w tx_id) (symbol data))"

definition append_alert :: "history_store \<Rightarrow> int \<Rightarrow> alert_event \<Rightarrow> history_store" where
  \<comment> \<open>\<open>if tx_id not in alert_history: alert_history[tx_id] = []\<close>, then \<open>append\<close>\<close>
  "append_alert ah tx_id ev =
     (case map_of ah tx_id of
        None \<Rightarrow> AList.update tx_id [ev] ah
      | Some evs \<Rightarrow> AList.update tx_id (evs @ [ev]) ah)"

definition monitor_step ::
  "world \<Rightarrow> int \<Rightarrow> position \<Rightarrow> history_store \<Rightarrow> (error + unit) \<times> position \<times> history_store" where
  \<comment> \<open>the body of the \<open>for\<close> loop, for one item of \<open>portfolio.items()\<close>\<close>
  "monitor_step w tx_id data ah =
     (if status data \<noteq> ''ACTIVE'' then (Inr (), data, ah)
      else case resolve_price w tx_id data of
        None \<Rightarrow> (Inr (), data, ah)
      | Some cp \<Rightarrow>
          (case compute_percent_change cp (buy_price data) of
             Inl e \<Rightarrow> (Inl e, data, ah)
           | Inr pc \<Rightarrow>
               (let data1 = data\<lparr>current_price := cp, percent_change := round2 pc\<rparr>
                in case classify pc of
                     None \<Rightarrow> (Inr (), data1, ah)
                   | Some kind \<Rightarrow>
                       if alert_sent data1 then (Inr (), data1, ah)
                       else
                         (Inr (),
                          data1\<lparr>alert_sent := True,
                                alert_type := Some kind,
                                alert_triggered_at := Some (triggered_now w tx_id)\<rparr>,
                          append_alert ah tx_id
                            \<lparr>ev_timestamp = event_now w tx_id,
                             ev_type = kind,
                             ev_percent_change = round2 pc,
                             ev_current_price = cp,
                             ev_buy_price = buy_price data,
                             ev_transaction_id = None\<rparr>))))"

text \<open>
  The loop over \<open>portfolio.items()\<close>. Each item's dictionary is updated in place; an
  exception leaves the loop with the items before it updated and the rest untouched.
\<close>

fun monitor_loop ::
  "world \<Rightarrow> portfolio_store \<Rightarrow> history_store \<Rightarrow> (error + unit) \<times> portfolio_store \<times> history_store" where
  "monitor_loop w [] ah = (Inr (), [], ah)"
| "monitor_loop w ((tx_id, data) # rest) ah =
     (case monitor_step w tx_id data ah of
        (Inl e, data', ah') \<Rightarrow> (Inl e, (tx_id, data') # rest, ah')
      | (Inr u, data', ah') \<Rightarrow>
          (case monitor_loop w rest ah' of
             (r, rest', ah'') \<Rightarrow> (r, (tx_id, data') # rest', ah'')))"

definition monitor_market :: "world \<Rightarrow> state \<Rightarrow> (error + unit) \<times> state" where
  "monitor_market w st =
     (if portfolio st = [] then (Inr (), st)
      else case monitor_loop w (portfolio st) (alert_history st) of
             (r, pf, ah) \<Rightarrow> (r, \<lparr>portfolio = pf, alert_history = ah\<rparr>))"

text \<open>
  The classification that a tick in world \<open>w\<close> gives a position: the one of the
  percentage of its resolved price, for an ACTIVE position whose price resolves and
  whose division does not raise, and none otherwise. It reads the tests of
  \<open>monitor_step\<close> up to the classification, and none of the fields a tick writes.
\<close>

definition crossing :: "world \<Rightarrow> int \<Rightarrow> position \<Rightarrow> alert_kind option" where
  "crossing w tx_id data =
     (if status data \<noteq> ''ACTIVE'' then None
      else case resolve_price w tx_id data of
        None \<Rightarrow> None
      | Some cp \<Rightarrow>
          (case compute_percent_change cp (buy_price data) of
             Inl e \<Rightarrow> None
           | Inr pc \<Rightarrow> classify pc))"

section \<open>The request handlers\<close>

text \<open>
  A handler returns its outcome together with the state it leaves behind, so that a
  raised exception still shows what had been stored before it.
\<close>

definition upper_char :: "char \<Rightarrow> char" where
  "upper_char c =
     (let n = (of_char c :: nat) in if 97 \<le> n \<and> n \<le> 122 then char_of (n - 32) else c)"

definition upper :: "string \<Rightarrow> string" where
  \<comment> \<open>\<open>str.upper()\<close> on the letters a to z; other characters are kept\<close>
  "upper s = map upper_char s"

definition new_position :: "string \<Rightarrow> rat \<Rightarrow> string \<Rightarrow> position" where
  \<comment> \<open>the dictionary literal that \<open>buy_stock\<close> stores\<close>
  "new_position sym_name execution_price now =
     \<lparr>symbol = sym_name,
      buy_price = execution_price,
      bought_at = now,
      status = ''ACTIVE'',
      alert_sent = False,
      current_price = execution_price,
      percent_change = 0,
      alert_type = None,
      alert_triggered_at = None,
      simulated_current_price = None\<rparr>"

definition buy_stock ::
  "(string \<Rightarrow> quote option) \<Rightarrow> string \<Rightarrow> string \<Rightarrow> state \<Rightarrow> (error + int \<times> position) \<times> state" where
  "buy_stock provider now order_symbol st =
     (let sym_name = upper order_symbol in
      if sym_name \<notin> set WATCHLIST
      then (Inl (HTTPException 400 ''Stock not in supported watchlist''), st)
      else case get_live_price provider sym_name of
        None \<Rightarrow> (Inl (HTTPException 503 ''Market data unavailable''), st)
      | Some execution_price \<Rightarrow>
          if execution_price = 0
          then (Inl (HTTPException 503 ''Market data unavailable''), st)
          else
            (let transaction_id = int (length (portfolio st)) + 1;
                 data = new_position sym_name execution_price now
             in (Inr (transaction_id, data),
                 st\<lparr>portfolio := AList.update transaction_id data (portfolio st)\<rparr>)))"

definition enrich :: "world \<Rightarrow> int \<Rightarrow> position \<Rightarrow> error + position" where
  \<comment> \<open>the body of the loop of \<open>view_portfolio\<close>, on a copy of the position\<close>
  "enrich w tx_id data =
     (if status data = ''ACTIVE'' then
        (case get_live_price (fetch w tx_id) (symbol data) of
           None \<Rightarrow> Inr data
         | Some cp \<Rightarrow>
             if cp = 0 then Inr data
             else (case compute_percent_change cp (buy_price data) of
                     Inl e \<Rightarrow> Inl e
                   | Inr pc \<Rightarrow> Inr (data\<lparr>current_price := cp, percent_change := round2 pc\<rparr>)))
      else Inr data)"

fun enrich_loop :: "world \<Rightarrow> portfolio_store \<Rightarrow> error + portfolio_store" where
  "enrich_loop w [] = Inr []"
| "enrich_loop w ((tx_id, data) # rest) =
     (case enrich w tx_id data of
        Inl e \<Rightarrow> Inl e
      | Inr data' \<Rightarrow>
          (case enrich_loop w rest of
             Inl e \<Rightarrow> Inl e
           | Inr rest' \<Rightarrow> Inr ((tx_id, data') # rest')))"

record portfolio_view =
  enriched_portfolio :: portfolio_store
  total_positions :: nat
  active_positions :: nat

definition view_portfolio :: "world \<Rightarrow> state \<Rightarrow> (error + portfolio_view) \<times> state" where
  "view_portfolio w st =
     (case enrich_loop w (portfolio st) of
        Inl e \<Rightarrow> (Inl e, st)
      | Inr enriched \<Rightarrow>
          (Inr \<lparr>enriched_portfolio = enriched,
                total_positions = length (portfolio st),
                active_positions = length (filter (\<lambda>(k, p). status p = ''ACTIVE'') (portfolio st))\<rparr>,
           st))"

definition view_alerts :: "state \<Rightarrow> (error + history_store \<times> nat) \<times> state" where
  "view_alerts st =
     (Inr (alert_history st, sum_list (map (\<lambda>(k, alerts). length alerts) (alert_history st))), st)"

text \<open>
  The loop of \<open>get_latest_alerts\<close>. \<open>latest = alerts_list[-1]\<close> is the stored
  dictionary itself, not a copy, so \<open>latest['transaction_id'] = tx_id\<close> writes into
  the alert history: the loop returns the collected list and the history it leaves.
\<close>

fun collect_latest :: "history_store \<Rightarrow> alert_event list \<times> history_store" where
  "collect_latest [] = ([], [])"
| "collect_latest ((tx_id, alerts_list) # rest) =
     (case collect_latest rest of
        (latest_alerts, rest') \<Rightarrow>
          if alerts_list \<noteq> [] then
            (let latest = (last alerts_list)\<lparr>ev_transaction_id := Some tx_id\<rparr>
             in (latest # latest_alerts, (tx_id, butlast alerts_list @ [latest]) # rest'))
          else (latest_alerts, (tx_id, alerts_list) # rest'))"

definition sort_reverse :: "('a \<Rightarrow> 'k::linorder) \<Rightarrow> 'a list \<Rightarrow> 'a list" where
  \<comment> \<open>\<open>list.sort(key=f, reverse=True)\<close>: a stable sort of the reversed list, reversed\<close>
  "sort_reverse f xs = rev (sort_key f (rev xs))"

record latest_view =
  latest_alerts :: "alert_event list"
  total :: nat

definition get_latest_alerts :: "state \<Rightarrow> (error + latest_view) \<times> state" where
  "get_latest_alerts st =
     (case collect_latest (alert_history st) of
        (collected, ah') \<Rightarrow>
          (let sorted_alerts = sort_reverse ev_timestamp collected
           in (Inr \<lparr>latest_alerts = take 10 sorted_alerts, total = length sorted_alerts\<rparr>,
               st\<lparr>alert_history := ah'\<rparr>)))"

definition reset_alert :: "int \<Rightarrow> state \<Rightarrow> (error + unit) \<times> state" where
  "reset_alert transaction_id st =
     (case map_of (portfolio st) transaction_id of
        None \<Rightarrow> (Inl (HTTPException 404 ''Transaction not found''), st)
      | Some data \<Rightarrow>
          (Inr (),
           st\<lparr>portfolio :=
                AList.update transaction_id
                  (data\<lparr>alert_sent := False, alert_type := None, alert_triggered_at := None\<rparr>)
                  (portfolio st)\<rparr>))"

definition simulate_price_movement ::
  "int \<Rightarrow> rat \<Rightarrow> state \<Rightarrow> (error + rat \<times> rat \<times> rat) \<times> state" where
  \<comment> \<open>the response holds \<open>buy_price\<close>, \<open>simulated_current_price\<close> and
      \<open>expected_percent_change\<close>; the division comes after the two stores\<close>
  "simulate_price_movement transaction_id simulated st =
     (case map_of (portfolio st) transaction_id of
        None \<Rightarrow> (Inl (HTTPException 404 ''Transaction not found''), st)
      | Some data \<Rightarrow>
          (let st' = st\<lparr>portfolio :=
                          AList.update transaction_id
                            (data\<lparr>simulated_current_price := Some simulated, alert_sent := False\<rparr>)
                            (portfolio st)\<rparr>
           in case compute_percent_change simulated (buy_price data) of
                Inl e \<Rightarrow> (Inl e, st')
              | Inr pc \<Rightarrow> (Inr (buy_price data, simulated, round2 pc), st')))"

definition clear_simulation :: "int \<Rightarrow> state \<Rightarrow> (error + unit) \<times> state" where
  "clear_simulation transaction_id st =
     (case map_of (portfolio st) transaction_id of
        None \<Rightarrow> (Inl (HTTPException 404 ''Transaction not found''), st)
      | Some data \<Rightarrow>
          (Inr (),
           st\<lparr>portfolio :=
                AList.update transaction_id
                  (data\<lparr>simulated_current_price := None\<rparr>)
                  (portfolio st)\<rparr>))"

section \<open>Runs of the system\<close>

text \<open>
  The scheduler calls \<open>monitor_market\<close> again and again; \<open>run_ticks\<close> is a run of
  ticks, one for each world of the list, whatever each tick returns.
\<close>

fun run_ticks :: "world list \<Rightarrow> state \<Rightarrow> state" where
  "run_ticks [] st = st"
| "run_ticks (w # ws) st = run_ticks ws (snd (monitor_market w st))"

text \<open>
  The states the program can be in: both dictionaries start empty, and every step is
  one call of a handler or one tick of the monitor, with any request and any answer of
  the outside world, run one after the other.
\<close>

inductive reachable :: "state \<Rightarrow> bool" where
  start: "reachable \<lparr>portfolio = [], alert_history = []\<rparr>"
| buy: "reachable st \<Longrightarrow> reachable (snd (buy_stock provider now order_symbol st))"
| tick: "reachable st \<Longrightarrow> reachable (snd (monitor_market w st))"
| portfolio_view: "reachable st \<Longrightarrow> reachable (snd (view_portfolio w st))"
| alerts_view: "reachable st \<Longrightarrow> reachable (snd (view_alerts st))"
| latest: "reachable st \<Longrightarrow> reachable (snd (get_latest_alerts st))"
| reset: "reachable st \<Longrightarrow> reachable (snd (reset_alert transaction_id st))"
| simulate: "reachable st \<Longrightarrow> reachable (snd (simulate_price_movement transaction_id simulated st))"
| clear: "reachable st \<Longrightarrow> reachable (snd (clear_simulation transaction_id st))"

section \<open>Properties of the monitor loop\<close>

text \<open>
  A store of alerts touches the key of its transaction only, and the steps of the other
  items of the loop leave the history of a key alone.
\<close>

lemma map_of_append_alert_same:
  "map_of (append_alert ah k ev) k = Some ((case map_of ah k of None \<Rightarrow> [] | Some evs \<Rightarrow> evs) @ [ev])"
  by (simp add: append_alert_def update_conv' split: option.splits)

lemma map_of_append_alert_other:
  "j \<noteq> k \<Longrightarrow> map_of (append_alert ah k ev) j = map_of ah j"
  by (simp add: append_alert_def update_conv' split: option.splits)

lemma distinct_append_alert:
  "distinct (map fst ah) \<Longrightarrow> distinct (map fst (append_alert ah k ev))"
  by (simp add: append_alert_def distinct_update split: option.splits)

lemma monitor_step_other:
  "j \<noteq> k \<Longrightarrow> map_of (snd (snd (monitor_step w k p ah))) j = map_of ah j"
  by (simp add: monitor_step_def Let_def map_of_append_alert_other
           split: option.splits sum.splits)

lemma monitor_step_error:
  "monitor_step w k p ah = (Inl e, p', ah') \<Longrightarrow> p' = p \<and> ah' = ah"
  by (auto simp: monitor_step_def Let_def split: option.splits sum.splits if_splits)

lemma monitor_loop_keys:
  "monitor_loop w pf ah = (r, pf', ah') \<Longrightarrow> map fst pf' = map fst pf"
proof (induction pf arbitrary: ah r pf' ah')
  case Nil
  then show ?case by simp
next
  case (Cons a pf)
  obtain k p where a: "a = (k, p)" by (cases a)
  obtain rk p1 ah1 where s: "monitor_step w k p ah = (rk, p1, ah1)"
    by (cases "monitor_step w k p ah") auto
  show ?case
  proof (cases rk)
    case (Inl e)
    with Cons.prems a s show ?thesis by auto
  next
    case (Inr u)
    obtain r2 pf2 ah2 where l: "monitor_loop w pf ah1 = (r2, pf2, ah2)"
      by (cases "monitor_loop w pf ah1") auto
    from Cons.IH[OF l] Cons.prems a s Inr l show ?thesis by auto
  qed
qed

lemma monitor_loop_frame:
  "k \<notin> fst ` set pf \<Longrightarrow> monitor_loop w pf ah = (r, pf', ah') \<Longrightarrow> map_of ah' k = map_of ah k"
proof (induction pf arbitrary: ah r pf' ah')
  case Nil
  then show ?case by simp
next
  case (Cons a pf)
  obtain j p where a: "a = (j, p)" by (cases a)
  with Cons.prems have jk: "k \<noteq> j" and notin: "k \<notin> fst ` set pf" by auto
  obtain rk p1 ah1 where s: "monitor_step w j p ah = (rk, p1, ah1)"
    by (cases "monitor_step w j p ah") auto
  from monitor_step_other[OF jk, of w p ah] s have h1: "map_of ah1 k = map_of ah k" by simp
  show ?case
  proof (cases rk)
    case (Inl e)
    with Cons.prems a s h1 show ?thesis by auto
  next
    case (Inr u)
    obtain r2 pf2 ah2 where l: "monitor_loop w pf ah1 = (r2, pf2, ah2)"
      by (cases "monitor_loop w pf ah1") auto
    from Cons.IH[OF notin l] Cons.prems a s Inr l h1 show ?thesis by auto
  qed
qed

text \<open>
  What the loop does at one key: either it stopped on an error before or at that item,
  or it ran the step on the item, with the history of that key as it was at the start.
\<close>

lemma monitor_loop_at:
  assumes "distinct (map fst pf)" and "(k, p) \<in> set pf"
    and "monitor_loop w pf ah = (r, pf', ah')"
  shows "(\<exists>e. r = Inl e \<and> map_of pf' k = Some p \<and> map_of ah' k = map_of ah k)
       \<or> (\<exists>ah0 rk p1 ah1. map_of ah0 k = map_of ah k \<and> monitor_step w k p ah0 = (rk, p1, ah1)
             \<and> (rk = Inr () \<or> r = rk)
             \<and> map_of pf' k = Some p1 \<and> map_of ah' k = map_of ah1 k)"
  using assms
proof (induction pf arbitrary: ah r pf' ah')
  case Nil
  then show ?case by simp
next
  case (Cons a pf)
  obtain j q where a: "a = (j, q)" by (cases a)
  obtain rj q1 ah1 where s: "monitor_step w j q ah = (rj, q1, ah1)"
    by (cases "monitor_step w j q ah") auto
  from Cons.prems(1) a have dist: "distinct (map fst pf)" and jnot: "j \<notin> fst ` set pf" by auto
  show ?case
  proof (cases "j = k")
    case True
    with Cons.prems(2) a jnot have qp: "q = p" by force
    show ?thesis
    proof (cases rj)
      case (Inl e)
      with Cons.prems(3) a s True qp show ?thesis by auto
    next
      case (Inr u)
      obtain r2 pf2 ah2 where l: "monitor_loop w pf ah1 = (r2, pf2, ah2)"
        by (cases "monitor_loop w pf ah1") auto
      from jnot True have "k \<notin> fst ` set pf" by simp
      from monitor_loop_frame[OF this l] have "map_of ah2 k = map_of ah1 k" .
      with Cons.prems(3) a s True qp Inr l show ?thesis by auto
    qed
  next
    case False
    with Cons.prems(2) a have mem: "(k, p) \<in> set pf" by auto
    from False have kj: "k \<noteq> j" by simp
    from monitor_step_other[OF kj, of w q ah] s have h1: "map_of ah1 k = map_of ah k" by simp
    show ?thesis
    proof (cases rj)
      case (Inl e)
      from monitor_step_error[of w j q ah e q1 ah1] s Inl have "q1 = q" "ah1 = ah" by auto
      moreover from dist mem have "map_of pf k = Some p" by simp
      ultimately show ?thesis using Cons.prems(3) a s Inl False by auto
    next
      case (Inr u)
      obtain r2 pf2 ah2 where l: "monitor_loop w pf ah1 = (r2, pf2, ah2)"
        by (cases "monitor_loop w pf ah1") auto
      from Cons.IH[OF dist mem l] Cons.prems(3) a s Inr l h1 False show ?thesis
        by auto
    qed
  qed
qed

lemma monitor_step_alerted:
  "alert_sent p \<Longrightarrow> monitor_step w k p ah = (rk, p1, ah1) \<Longrightarrow> alert_sent p1 \<and> ah1 = ah"
  by (auto simp: monitor_step_def Let_def split: option.splits sum.splits if_splits)

lemma monitor_step_unresolved:
  "resolve_price w k p = None \<Longrightarrow> monitor_step w k p ah = (Inr (), p, ah)"
  by (simp add: monitor_step_def)

lemma monitor_step_fires:
  assumes "status p = ''ACTIVE''" and "resolve_price w k p = Some cp"
    and "compute_percent_change cp (buy_price p) = Inr pc" and "classify pc = Some kind"
    and "\<not> alert_sent p"
  shows "monitor_step w k p ah =
           (Inr (),
            p\<lparr>current_price := cp, percent_change := round2 pc, alert_sent := True,
              alert_type := Some kind, alert_triggered_at := Some (triggered_now w k)\<rparr>,
            append_alert ah k
              \<lparr>ev_timestamp = event_now w k, ev_type = kind, ev_percent_change = round2 pc,
               ev_current_price = cp, ev_buy_price = buy_price p, ev_transaction_id = None\<rparr>)"
  using assms by (simp add: monitor_step_def Let_def)

lemma monitor_market_loop:
  "monitor_market w st = (r, st') \<Longrightarrow>
     monitor_loop w (portfolio st) (alert_history st) = (r, portfolio st', alert_history st')"
  by (cases "portfolio st"; cases "monitor_loop w (portfolio st) (alert_history st)")
     (auto simp: monitor_market_def)

lemma monitor_market_keys:
  "map fst (portfolio (snd (monitor_market w st))) = map fst (portfolio st)"
  using monitor_market_loop[of w st "fst (monitor_market w st)" "snd (monitor_market w st)"]
  by (simp add: monitor_loop_keys)

text \<open>A position whose alert has been sent keeps the flag and its history through a tick.\<close>

lemma monitor_market_alerted:
  assumes "distinct (map fst (portfolio st))" and "(k, p) \<in> set (portfolio st)"
    and "alert_sent p" and "monitor_market w st = (r, st')"
  shows "\<exists>p'. (k, p') \<in> set (portfolio st') \<and> alert_sent p'
           \<and> map_of (alert_history st') k = map_of (alert_history st) k"
proof -
  note loop = monitor_market_loop[OF assms(4)]
  from monitor_loop_at[OF assms(1,2) loop]
  consider (a) "map_of (portfolio st') k = Some p"
      "map_of (alert_history st') k = map_of (alert_history st) k"
    | (b) ah0 rk p1 ah1 where "map_of ah0 k = map_of (alert_history st) k"
      "monitor_step w k p ah0 = (rk, p1, ah1)" "map_of (portfolio st') k = Some p1"
      "map_of (alert_history st') k = map_of ah1 k"
    by blast
  then show ?thesis
  proof cases
    case a
    from a(1) have "(k, p) \<in> set (portfolio st')" by (rule map_of_SomeD)
    with a(2) assms(3) show ?thesis by blast
  next
    case b
    from monitor_step_alerted[OF assms(3) b(2)] have "alert_sent p1" "ah1 = ah0" by auto
    moreover from b(3) have "(k, p1) \<in> set (portfolio st')" by (rule map_of_SomeD)
    ultimately show ?thesis using b(1,4) by auto
  qed
qed

lemma run_ticks_alerted:
  "distinct (map fst (portfolio st)) \<Longrightarrow> (k, p) \<in> set (portfolio st) \<Longrightarrow> alert_sent p \<Longrightarrow>
     map_of (alert_history (run_ticks ws st)) k = map_of (alert_history st) k"
proof (induction ws arbitrary: st p)
  case Nil
  then show ?case by simp
next
  case (Cons w ws)
  obtain r st' where t: "monitor_market w st = (r, st')" by (cases "monitor_market w st") auto
  from monitor_market_alerted[OF Cons.prems t] obtain p' where
    p': "(k, p') \<in> set (portfolio st')" "alert_sent p'"
    and h: "map_of (alert_history st') k = map_of (alert_history st) k" by blast
  from monitor_market_keys[of w st] t Cons.prems(1) have "distinct (map fst (portfolio st'))"
    by simp
  from Cons.IH[OF this p'] h t show ?case by simp
qed

subsection \<open>A position with no resolvable price\<close>

text \<open>
  Claim C9. In a tick, a position for which no price is resolvable (it has no simulated
  override and the provider lookup yields no price) is left as it was: its record after
  the tick is the record before it, the keys of the portfolio are the same, and nothing
  is appended to the alert history of its transaction. This holds for a position of any
  status, an ACTIVE one in particular, and whether or not the tick runs to its end.
\<close>

theorem unresolvable_position_unchanged:
  assumes "distinct (map fst (portfolio st))"
    and "(tx_id, data) \<in> set (portfolio st)"
    and "simulated_current_price data = None"
    and "get_live_price (fetch w tx_id) (symbol data) = None"
    and "monitor_market w st = (r, st')"
  shows "map_of (portfolio st') tx_id = Some data
       \<and> map fst (portfolio st') = map fst (portfolio st)
       \<and> map_of (alert_history st') tx_id = map_of (alert_history st) tx_id"
proof -
  from assms(3,4) have unres: "resolve_price w tx_id data = None"
    by (simp add: resolve_price_def)
  note loop = monitor_market_loop[OF assms(5)]
  from monitor_loop_at[OF assms(1,2) loop] monitor_step_unresolved[OF unres]
  have "map_of (portfolio st') tx_id = Some data
     \<and> map_of (alert_history st') tx_id = map_of (alert_history st) tx_id"
    by auto
  with monitor_loop_keys[OF loop] show ?thesis by simp
qed

text \<open>
  The theorem at a portfolio of one ACTIVE position whose provider answers nothing.
\<close>

theorem unresolvable_position_unchanged_witness:
  "map_of (portfolio (snd (monitor_market
       \<lparr>fetch = (\<lambda>k s. None), triggered_now = (\<lambda>k. ''2026-01-01T10:00:05''),
        event_now = (\<lambda>k. ''2026-01-01T10:00:05'')\<rparr>
       \<lparr>portfolio = [(1, new_position ''TCS.NS'' 100 ''2026-01-01T10:00:00'')],
        alert_history = []\<rparr>))) 1
   = Some (new_position ''TCS.NS'' 100 ''2026-01-01T10:00:00'')
   \<and> map_of (alert_history (snd (monitor_market
       \<lparr>fetch = (\<lambda>k s. None), triggered_now = (\<lambda>k. ''2026-01-01T10:00:05''),
        event_now = (\<lambda>k. ''2026-01-01T10:00:05'')\<rparr>
       \<lparr>portfolio = [(1, new_position ''TCS.NS'' 100 ''2026-01-01T10:00:00'')],
        alert_history = []\<rparr>))) 1 = None"
  using unresolvable_position_unchanged
     [where tx_id = 1 and data = "new_position ''TCS.NS'' 100 ''2026-01-01T10:00:00''"
        and st = "\<lparr>portfolio = [(1, new_position ''TCS.NS'' 100 ''2026-01-01T10:00:00'')],
                   alert_history = []\<rparr>"
        and w = "\<lparr>fetch = (\<lambda>k s. None), triggered_now = (\<lambda>k. ''2026-01-01T10:00:05''),
                  event_now = (\<lambda>k. ''2026-01-01T10:00:05'')\<rparr>",
      OF _ _ _ _ surjective_pairing]
  by (simp add: new_position_def get_live_price_def)

subsection \<open>Debounce\<close>

text \<open>
  Claim C1. Take a tick that runs to its end and an ACTIVE position whose resolved
  price classifies as PROFIT or LOSS. If \<open>alert_sent\<close> was true before the tick, the
  tick leaves the history of that transaction as it was, and so does every run of
  later ticks, whatever prices they resolve. If \<open>alert_sent\<close> was false, the tick
  appends exactly one event to that history and sets \<open>alert_sent\<close>, and no run of
  later ticks appends another.
\<close>

theorem debounce_alert:
  assumes "distinct (map fst (portfolio st))"
    and "(tx_id, data) \<in> set (portfolio st)"
    and "status data = ''ACTIVE''"
    and "resolve_price w tx_id data = Some cp"
    and "compute_percent_change cp (buy_price data) = Inr pc"
    and "classify pc = Some kind"
    and "monitor_market w st = (Inr (), st')"
  shows "(if alert_sent data
          then map_of (alert_history st') tx_id = map_of (alert_history st) tx_id
             \<and> map_of (portfolio st') tx_id =
                 Some (data\<lparr>current_price := cp, percent_change := round2 pc\<rparr>)
             \<and> map_of (alert_history (run_ticks ws st')) tx_id = map_of (alert_history st) tx_id
          else map_of (alert_history st') tx_id =
                 Some ((case map_of (alert_history st) tx_id of None \<Rightarrow> [] | Some evs \<Rightarrow> evs) @
                   [\<lparr>ev_timestamp = event_now w tx_id, ev_type = kind,
                     ev_percent_change = round2 pc, ev_current_price = cp,
                     ev_buy_price = buy_price data, ev_transaction_id = None\<rparr>])
             \<and> map_of (portfolio st') tx_id =
                 Some (data\<lparr>current_price := cp, percent_change := round2 pc, alert_sent := True,
                        alert_type := Some kind,
                        alert_triggered_at := Some (triggered_now w tx_id)\<rparr>)
             \<and> map_of (alert_history (run_ticks ws st')) tx_id = map_of (alert_history st') tx_id)"
proof -
  note loop = monitor_market_loop[OF assms(7)]
  from monitor_loop_at[OF assms(1,2) loop]
  obtain ah0 rk p1 ah1 where ah0: "map_of ah0 tx_id = map_of (alert_history st) tx_id"
    and step: "monitor_step w tx_id data ah0 = (rk, p1, ah1)"
    and pf: "map_of (portfolio st') tx_id = Some p1"
    and ah: "map_of (alert_history st') tx_id = map_of ah1 tx_id"
    by blast
  from monitor_market_keys[of w st] assms(1,7) have dist': "distinct (map fst (portfolio st'))"
    by simp
  from pf have mem': "(tx_id, p1) \<in> set (portfolio st')" by (rule map_of_SomeD)
  show ?thesis
  proof (cases "alert_sent data")
    case True
    from assms(3-6) True have "monitor_step w tx_id data ah0 =
        (Inr (), data\<lparr>current_price := cp, percent_change := round2 pc\<rparr>, ah0)"
      by (simp add: monitor_step_def Let_def)
    with step have p1: "p1 = data\<lparr>current_price := cp, percent_change := round2 pc\<rparr>"
      and "ah1 = ah0" by auto
    with ah ah0 have same: "map_of (alert_history st') tx_id = map_of (alert_history st) tx_id"
      by simp
    from p1 True have "alert_sent p1" by simp
    from run_ticks_alerted[OF dist' mem' this, of ws] same pf p1 True show ?thesis by simp
  next
    case False
    from monitor_step_fires[OF assms(3-6) False, of ah0] step
    have p1: "p1 = data\<lparr>current_price := cp, percent_change := round2 pc, alert_sent := True,
              alert_type := Some kind, alert_triggered_at := Some (triggered_now w tx_id)\<rparr>"
      and ah1: "ah1 = append_alert ah0 tx_id
              \<lparr>ev_timestamp = event_now w tx_id, ev_type = kind, ev_percent_change = round2 pc,
               ev_current_price = cp, ev_buy_price = buy_price data, ev_transaction_id = None\<rparr>"
      by auto
    from p1 have "alert_sent p1" by simp
    from run_ticks_alerted[OF dist' mem' this, of ws] ah ah1 ah0 pf p1 False show ?thesis
      by (simp add: map_of_append_alert_same)
  qed
qed

text \<open>
  The theorem at a position bought at 100 whose price resolves to 105: the first tick
  records one PROFIT alert of 5 percent, and a second tick with the same price leaves
  the history at that one alert.
\<close>

theorem debounce_alert_witness:
  "map_of (alert_history (snd (monitor_market
      \<lparr>fetch = (\<lambda>k s. None), triggered_now = (\<lambda>k. ''2026-01-01T10:00:05.000100''),
       event_now = (\<lambda>k. ''2026-01-01T10:00:05.000200'')\<rparr>
      \<lparr>portfolio = [(1, (new_position ''TCS.NS'' 100 ''2026-01-01T10:00:00'')
                           \<lparr>simulated_current_price := Some 105\<rparr>)],
       alert_history = []\<rparr>))) 1
    = Some [\<lparr>ev_timestamp = ''2026-01-01T10:00:05.000200'', ev_type = PROFIT,
             ev_percent_change = 5, ev_current_price = 105, ev_buy_price = 100,
             ev_transaction_id = None\<rparr>]
   \<and> map_of (alert_history (run_ticks
      [\<lparr>fetch = (\<lambda>k s. None), triggered_now = (\<lambda>k. ''2026-01-01T10:00:05.000100''),
        event_now = (\<lambda>k. ''2026-01-01T10:00:05.000200'')\<rparr>]
      (snd (monitor_market
      \<lparr>fetch = (\<lambda>k s. None), triggered_now = (\<lambda>k. ''2026-01-01T10:00:05.000100''),
       event_now = (\<lambda>k. ''2026-01-01T10:00:05.000200'')\<rparr>
      \<lparr>portfolio = [(1, (new_position ''TCS.NS'' 100 ''2026-01-01T10:00:00'')
                           \<lparr>simulated_current_price := Some 105\<rparr>)],
       alert_history = []\<rparr>)))) 1
    = Some [\<lparr>ev_timestamp = ''2026-01-01T10:00:05.000200'', ev_type = PROFIT,
             ev_percent_change = 5, ev_current_price = 105, ev_buy_price = 100,
             ev_transaction_id = None\<rparr>]"
proof -
  let ?w = "\<lparr>fetch = (\<lambda>k s. None), triggered_now = (\<lambda>k. ''2026-01-01T10:00:05.000100''),
       event_now = (\<lambda>k. ''2026-01-01T10:00:05.000200'')\<rparr> :: world"
  let ?p = "(new_position ''TCS.NS'' 100 ''2026-01-01T10:00:00'')
              \<lparr>simulated_current_price := Some 105\<rparr>"
  let ?st = "\<lparr>portfolio = [(1, ?p)], alert_history = []\<rparr>"
  have r5: "round2 5 = 5" by code_simp
  have completed: "monitor_market ?w ?st = (Inr (), snd (monitor_market ?w ?st))"
    by (simp add: monitor_market_def monitor_step_def new_position_def resolve_price_def
          compute_percent_change_def classify_def)
  from debounce_alert[where ws = "[?w]" and tx_id = 1 and data = ?p and cp = 105 and pc = 5
      and kind = PROFIT, OF _ _ _ _ _ _ completed]
  show ?thesis
    by (simp add: new_position_def resolve_price_def compute_percent_change_def
          classify_def r5)
qed

subsection \<open>The thresholds\<close>



section \<open>Properties of the request handlers\<close>

subsection \<open>A buy that fails\<close>




subsection \<open>A buy that succeeds\<close>

lemma update_fresh_key:
  "k \<notin> fst ` set al \<Longrightarrow> AList.update k v al = al @ [(k, v)]"
  by (induction al) auto

text \<open>
  Claim C6. A successful buy returns the transaction id that is one more than the number
  of positions held, and stores under it a position that is ACTIVE, has \<open>alert_sent\<close>
  false and \<open>percent_change\<close> 0, and whose \<open>buy_price\<close> and \<open>current_price\<close> are
  both the price looked up for the upper-cased symbol. When the ids held are 1 to n in
  this order, as they are from the empty portfolio on, the new position comes last and
  the ids are 1 to n + 1: ids follow the order of insertion and start at 1.
\<close>

theorem buy_success_position:
  assumes "buy_stock provider now order_symbol st = (Inr (tid, data), st')"
  shows "tid = int (length (portfolio st)) + 1
       \<and> map_of (portfolio st') tid = Some data
       \<and> alert_history st' = alert_history st
       \<and> status data = ''ACTIVE''
       \<and> \<not> alert_sent data
       \<and> percent_change data = 0
       \<and> get_live_price provider (upper order_symbol) = Some (buy_price data)
       \<and> current_price data = buy_price data
       \<and> symbol data = upper order_symbol
       \<and> (if map fst (portfolio st) = [1..int (length (portfolio st))]
          then portfolio st' = portfolio st @ [(tid, data)]
             \<and> map fst (portfolio st') = [1..int (length (portfolio st'))]
          else True)"
proof -
  from assms have tid: "tid = int (length (portfolio st)) + 1"
    and data: "data = new_position (upper order_symbol) (buy_price data) now"
    and price: "get_live_price provider (upper order_symbol) = Some (buy_price data)"
    and st': "st' = st\<lparr>portfolio := AList.update tid data (portfolio st)\<rparr>"
    by (auto simp: buy_stock_def Let_def new_position_def split: option.splits if_splits)
  have stored: "map_of (portfolio st') tid = Some data"
    by (simp add: st' update_conv')
  have order: "portfolio st' = portfolio st @ [(tid, data)]
             \<and> map fst (portfolio st') = [1..int (length (portfolio st'))]"
    if keys: "map fst (portfolio st) = [1..int (length (portfolio st))]"
  proof -
    have "tid \<notin> set (map fst (portfolio st))"
      by (subst keys) (simp add: tid)
    then have "tid \<notin> fst ` set (portfolio st)" by simp
    then have app: "AList.update tid data (portfolio st) = portfolio st @ [(tid, data)]"
      by (rule update_fresh_key)
    have "[1..int (length (portfolio st)) + 1] = [1..int (length (portfolio st))] @ [int (length (portfolio st)) + 1]"
      using upto_rec2[of 1 "int (length (portfolio st)) + 1"] by simp
    with app keys show ?thesis by (simp add: st' tid add.commute)
  qed
  from data have fields: "status data = ''ACTIVE'' \<and> \<not> alert_sent data \<and> percent_change data = 0
      \<and> current_price data = buy_price data \<and> symbol data = upper order_symbol"
    by (metis new_position_def position.select_convs(1) position.select_convs(4)
          position.select_convs(5) position.select_convs(6) position.select_convs(7))
  have ordered: "(if map fst (portfolio st) = [1..int (length (portfolio st))]
          then portfolio st' = portfolio st @ [(tid, data)]
             \<and> map fst (portfolio st') = [1..int (length (portfolio st'))]
          else True)"
  proof (cases "map fst (portfolio st) = [1..int (length (portfolio st))]")
    case True
    show ?thesis by (subst if_P[OF True]) (rule order[OF True])
  next
    case False
    show ?thesis by (subst if_not_P[OF False]) (rule TrueI)
  qed
  have hist: "alert_history st' = alert_history st" by (simp add: st')
  from tid stored hist fields price ordered show ?thesis by blast
qed

subsection \<open>Ticks that fire, and ticks that do not\<close>

lemma monitor_market_fires:
  assumes "distinct (map fst (portfolio st))" and "(k, p) \<in> set (portfolio st)"
    and "status p = ''ACTIVE''" and "resolve_price w k p = Some cp"
    and "compute_percent_change cp (buy_price p) = Inr pc" and "classify pc = Some kind"
    and "\<not> alert_sent p" and "monitor_market w st = (Inr (), st')"
  shows "map_of (alert_history st') k =
           Some ((case map_of (alert_history st) k of None \<Rightarrow> [] | Some evs \<Rightarrow> evs) @
             [\<lparr>ev_timestamp = event_now w k, ev_type = kind, ev_percent_change = round2 pc,
               ev_current_price = cp, ev_buy_price = buy_price p, ev_transaction_id = None\<rparr>])
       \<and> map_of (portfolio st') k =
           Some (p\<lparr>current_price := cp, percent_change := round2 pc, alert_sent := True,
                  alert_type := Some kind, alert_triggered_at := Some (triggered_now w k)\<rparr>)"
proof -
  note loop = monitor_market_loop[OF assms(8)]
  from monitor_loop_at[OF assms(1,2) loop]
  obtain ah0 rk p1 ah1 where ah0: "map_of ah0 k = map_of (alert_history st) k"
    and step: "monitor_step w k p ah0 = (rk, p1, ah1)"
    and pf: "map_of (portfolio st') k = Some p1"
    and ah: "map_of (alert_history st') k = map_of ah1 k"
    by blast
  from monitor_step_fires[OF assms(3-7), of ah0] step ah ah0 pf show ?thesis
    by (auto simp: map_of_append_alert_same)
qed

lemma crossing_tick_fields [simp]:
  "crossing w k (p\<lparr>current_price := a, percent_change := b\<rparr>) = crossing w k p"
  by (simp add: crossing_def resolve_price_def split: option.splits sum.splits)

lemma monitor_step_quiet:
  assumes "crossing w k p = None" and "monitor_step w k p ah = (rk, p1, ah1)"
  shows "ah1 = ah \<and> alert_sent p1 = alert_sent p
       \<and> (\<exists>a b. p1 = p\<lparr>current_price := a, percent_change := b\<rparr>)"
proof -
  have id: "p = p\<lparr>current_price := current_price p, percent_change := percent_change p\<rparr>"
    by simp
  from assms have "ah1 = ah" and "alert_sent p1 = alert_sent p"
    by (auto simp: crossing_def monitor_step_def Let_def
           split: if_splits option.splits sum.splits)
  moreover from assms have "p1 = p \<or> (\<exists>a b. p1 = p\<lparr>current_price := a, percent_change := b\<rparr>)"
    by (auto simp: crossing_def monitor_step_def Let_def
           split: if_splits option.splits sum.splits)
  with id have "\<exists>a b. p1 = p\<lparr>current_price := a, percent_change := b\<rparr>" by metis
  ultimately show ?thesis by simp
qed

lemma monitor_market_quiet:
  assumes "distinct (map fst (portfolio st))" and "(k, p) \<in> set (portfolio st)"
    and "\<not> alert_sent p" and "crossing w k p = None" and "monitor_market w st = (r, st')"
  shows "\<exists>a b. (k, p\<lparr>current_price := a, percent_change := b\<rparr>) \<in> set (portfolio st')
           \<and> map_of (alert_history st') k = map_of (alert_history st) k"
proof -
  note loop = monitor_market_loop[OF assms(5)]
  have id: "p = p\<lparr>current_price := current_price p, percent_change := percent_change p\<rparr>"
    by simp
  from monitor_loop_at[OF assms(1,2) loop]
  consider (a) "map_of (portfolio st') k = Some p"
      "map_of (alert_history st') k = map_of (alert_history st) k"
    | (b) ah0 rk p1 ah1 where "map_of ah0 k = map_of (alert_history st) k"
      "monitor_step w k p ah0 = (rk, p1, ah1)" "map_of (portfolio st') k = Some p1"
      "map_of (alert_history st') k = map_of ah1 k"
    by blast
  then show ?thesis
  proof cases
    case a
    from a(1) have "(k, p) \<in> set (portfolio st')" by (rule map_of_SomeD)
    with id have "(k, p\<lparr>current_price := current_price p, percent_change := percent_change p\<rparr>)
        \<in> set (portfolio st')" by simp
    with a(2) show ?thesis by blast
  next
    case b
    from monitor_step_quiet[OF assms(4) b(2)] obtain x y where
      "ah1 = ah0" "p1 = p\<lparr>current_price := x, percent_change := y\<rparr>" by blast
    moreover from b(3) have "(k, p1) \<in> set (portfolio st')" by (rule map_of_SomeD)
    ultimately show ?thesis using b(1,4) by auto
  qed
qed

lemma run_ticks_quiet:
  "distinct (map fst (portfolio st)) \<Longrightarrow> (k, p) \<in> set (portfolio st) \<Longrightarrow> \<not> alert_sent p \<Longrightarrow>
   list_all (\<lambda>w. crossing w k p = None) ws \<Longrightarrow>
     \<exists>a b. (k, p\<lparr>current_price := a, percent_change := b\<rparr>) \<in> set (portfolio (run_ticks ws st))
        \<and> map_of (alert_history (run_ticks ws st)) k = map_of (alert_history st) k
        \<and> distinct (map fst (portfolio (run_ticks ws st)))"
proof (induction ws arbitrary: st p)
  case Nil
  have "p = p\<lparr>current_price := current_price p, percent_change := percent_change p\<rparr>"
    by simp
  with Nil show ?case by (metis run_ticks.simps(1))
next
  case (Cons w ws)
  obtain r st' where t: "monitor_market w st = (r, st')" by (cases "monitor_market w st") auto
  from Cons.prems(4) have q: "crossing w k p = None"
    and qs: "list_all (\<lambda>w. crossing w k p = None) ws" by simp_all
  from monitor_market_quiet[OF Cons.prems(1,2,3) q t] obtain a b where
    mem: "(k, p\<lparr>current_price := a, percent_change := b\<rparr>) \<in> set (portfolio st')"
    and h: "map_of (alert_history st') k = map_of (alert_history st) k" by blast
  from monitor_market_keys[of w st] t Cons.prems(1) have d: "distinct (map fst (portfolio st'))"
    by simp
  from Cons.prems(3) have ns: "\<not> alert_sent (p\<lparr>current_price := a, percent_change := b\<rparr>)"
    by simp
  from qs have qs': "list_all (\<lambda>w. crossing w k (p\<lparr>current_price := a, percent_change := b\<rparr>) = None) ws"
    by simp
  from Cons.IH[OF d mem ns qs'] h t show ?case by auto
qed

lemma crossing_alert_fields [simp]:
  "crossing w k (p\<lparr>alert_sent := a, alert_type := b, alert_triggered_at := c\<rparr>) = crossing w k p"
  by (simp add: crossing_def resolve_price_def split: option.splits sum.splits)

lemma monitor_market_reprices:
  assumes "distinct (map fst (portfolio st))" and "(k, p) \<in> set (portfolio st)"
    and "status p = ''ACTIVE''" and "resolve_price w k p = Some cp"
    and "compute_percent_change cp (buy_price p) = Inr pc"
    and "monitor_market w st = (Inr (), st')"
  shows "\<exists>p'. map_of (portfolio st') k = Some p' \<and> current_price p' = cp
           \<and> percent_change p' = round2 pc"
proof -
  note loop = monitor_market_loop[OF assms(6)]
  from monitor_loop_at[OF assms(1,2) loop]
  obtain ah0 rk p1 ah1 where step: "monitor_step w k p ah0 = (rk, p1, ah1)"
    and pf: "map_of (portfolio st') k = Some p1"
    by blast
  from step assms(3-5) have "current_price p1 = cp \<and> percent_change p1 = round2 pc"
    by (auto simp: monitor_step_def Let_def split: option.splits if_splits)
  with pf show ?thesis by blast
qed

lemma map_of_update_entry:
  "map_of (AList.update k v al) k = Some v"
  by (simp add: update_conv')

subsection \<open>Resetting an alert\<close>

text \<open>
  Claim C7. \<open>reset_alert\<close> on a known transaction id succeeds, sets \<open>alert_sent\<close> to
  false and removes \<open>alert_type\<close> and \<open>alert_triggered_at\<close> from that position,
  leaving the other positions and the alert history as they were; on an unknown id it
  fails with the 404 error and leaves the state unchanged. After the reset, and after
  any run of ticks that do not classify the price of that position, the next tick that
  classifies it (and runs to its end) appends one new event to the history of that
  transaction, after all the events that were there.
\<close>

theorem reset_alert_rearms:
  assumes "distinct (map fst (portfolio st))"
    and "map_of (portfolio st) tx_id = Some data"
    and "reset_alert tx_id st = (r1, st1)"
    and "list_all (\<lambda>w'. crossing w' tx_id data = None) ws"
    and "status data = ''ACTIVE''"
    and "resolve_price w tx_id data = Some cp"
    and "compute_percent_change cp (buy_price data) = Inr pc"
    and "classify pc = Some kind"
    and "monitor_market w (run_ticks ws st1) = (Inr (), st2)"
  shows "r1 = Inr ()
       \<and> map_of (portfolio st1) tx_id =
           Some (data\<lparr>alert_sent := False, alert_type := None, alert_triggered_at := None\<rparr>)
       \<and> (if other = tx_id then True
          else map_of (portfolio st1) other = map_of (portfolio st) other)
       \<and> alert_history st1 = alert_history st
       \<and> map_of (alert_history st2) tx_id =
           Some ((case map_of (alert_history st) tx_id of None \<Rightarrow> [] | Some evs \<Rightarrow> evs) @
             [\<lparr>ev_timestamp = event_now w tx_id, ev_type = kind, ev_percent_change = round2 pc,
               ev_current_price = cp, ev_buy_price = buy_price data, ev_transaction_id = None\<rparr>])
       \<and> (if map_of (portfolio st) unknown = None
          then reset_alert unknown st = (Inl (HTTPException 404 ''Transaction not found''), st)
          else True)"
proof -
  let ?d = "data\<lparr>alert_sent := False, alert_type := None, alert_triggered_at := None\<rparr>"
  from assms(2,3) have r1: "r1 = Inr ()"
    and st1: "st1 = st\<lparr>portfolio := AList.update tx_id ?d (portfolio st)\<rparr>"
    by (auto simp: reset_alert_def)
  have entry: "map_of (portfolio st1) tx_id = Some ?d"
    by (simp add: st1 update_conv')
  have others: "(if other = tx_id then True
          else map_of (portfolio st1) other = map_of (portfolio st) other)"
    by (simp add: st1 update_conv')
  have hist: "alert_history st1 = alert_history st" by (simp add: st1)
  have unk: "(if map_of (portfolio st) unknown = None
          then reset_alert unknown st = (Inl (HTTPException 404 ''Transaction not found''), st)
          else True)"
    by (simp add: reset_alert_def)
  from assms(1) have d1: "distinct (map fst (portfolio st1))"
    by (simp add: st1 distinct_update)
  from entry have m1: "(tx_id, ?d) \<in> set (portfolio st1)" by (rule map_of_SomeD)
  have n1: "\<not> alert_sent ?d" by simp
  from assms(4) have q1: "list_all (\<lambda>w'. crossing w' tx_id ?d = None) ws" by simp
  from run_ticks_quiet[OF d1 m1 n1 q1] obtain a b where
    m2: "(tx_id, ?d\<lparr>current_price := a, percent_change := b\<rparr>) \<in> set (portfolio (run_ticks ws st1))"
    and h2: "map_of (alert_history (run_ticks ws st1)) tx_id = map_of (alert_history st1) tx_id"
    and d2: "distinct (map fst (portfolio (run_ticks ws st1)))"
    by blast
  let ?e = "?d\<lparr>current_price := a, percent_change := b\<rparr>"
  from assms(5) have s: "status ?e = ''ACTIVE''" by simp
  from assms(6) have rp: "resolve_price w tx_id ?e = Some cp"
    by (simp add: resolve_price_def split: option.splits)
  from assms(7) have cpc: "compute_percent_change cp (buy_price ?e) = Inr pc" by simp
  have ns: "\<not> alert_sent ?e" by simp
  from monitor_market_fires[OF d2 m2 s rp cpc assms(8) ns assms(9)] h2 hist
  have fired: "map_of (alert_history st2) tx_id =
           Some ((case map_of (alert_history st) tx_id of None \<Rightarrow> [] | Some evs \<Rightarrow> evs) @
             [\<lparr>ev_timestamp = event_now w tx_id, ev_type = kind, ev_percent_change = round2 pc,
               ev_current_price = cp, ev_buy_price = buy_price data, ev_transaction_id = None\<rparr>])"
    by simp
  from r1 entry others hist fired unk show ?thesis by blast
qed

subsection \<open>Simulated prices\<close>

text \<open>
  Claim C8. \<open>simulate_price_movement\<close> on a known transaction stores the override
  and sets \<open>alert_sent\<close> to false, and a tick resolves the price of that position to
  the override. \<open>clear_simulation\<close> then succeeds and removes the override, so the
  position resolves to the live lookup, and the next tick that runs to its end records
  the looked-up price and its percentage, not the override. Both handlers fail with the
  404 error on an unknown transaction id and leave the state unchanged.
\<close>

theorem simulation_override:
  assumes "distinct (map fst (portfolio st))"
    and "map_of (portfolio st) tx_id = Some data"
    and "simulate_price_movement tx_id v st = (r1, st1)"
    and "clear_simulation tx_id st1 = (r2, st2)"
    and "status data = ''ACTIVE''"
    and "get_live_price (fetch w tx_id) (symbol data) = Some lp"
    and "compute_percent_change lp (buy_price data) = Inr pc"
    and "monitor_market w st2 = (Inr (), st3)"
  shows "map_of (portfolio st1) tx_id =
           Some (data\<lparr>simulated_current_price := Some v, alert_sent := False\<rparr>)
       \<and> resolve_price w tx_id (data\<lparr>simulated_current_price := Some v, alert_sent := False\<rparr>)
           = Some v
       \<and> alert_history st1 = alert_history st
       \<and> r2 = Inr ()
       \<and> map_of (portfolio st2) tx_id =
           Some (data\<lparr>simulated_current_price := None, alert_sent := False\<rparr>)
       \<and> resolve_price w tx_id (data\<lparr>simulated_current_price := None, alert_sent := False\<rparr>)
           = get_live_price (fetch w tx_id) (symbol data)
       \<and> (\<exists>p3. map_of (portfolio st3) tx_id = Some p3 \<and> current_price p3 = lp
              \<and> percent_change p3 = round2 pc)
       \<and> (if map_of (portfolio st) unknown = None
          then simulate_price_movement unknown v st
                 = (Inl (HTTPException 404 ''Transaction not found''), st)
             \<and> clear_simulation unknown st
                 = (Inl (HTTPException 404 ''Transaction not found''), st)
          else True)"
proof -
  let ?d1 = "data\<lparr>simulated_current_price := Some v, alert_sent := False\<rparr>"
  let ?d2 = "data\<lparr>simulated_current_price := None, alert_sent := False\<rparr>"
  from assms(2,3) have st1: "st1 = st\<lparr>portfolio := AList.update tx_id ?d1 (portfolio st)\<rparr>"
    by (auto simp: simulate_price_movement_def Let_def split: sum.splits)
  have e1: "map_of (portfolio st1) tx_id = Some ?d1" by (simp add: st1 update_conv')
  have h1: "alert_history st1 = alert_history st" by (simp add: st1)
  have swap: "?d1\<lparr>simulated_current_price := None\<rparr> = ?d2" by (cases data) simp
  from e1 assms(4) have r2: "r2 = Inr ()"
    and "st2 = st1\<lparr>portfolio :=
           AList.update tx_id (?d1\<lparr>simulated_current_price := None\<rparr>) (portfolio st1)\<rparr>"
    by (simp_all add: clear_simulation_def)
  with swap have st2: "st2 = st1\<lparr>portfolio := AList.update tx_id ?d2 (portfolio st1)\<rparr>"
    by (simp only:)
  have e2: "map_of (portfolio st2) tx_id = Some ?d2" by (simp add: st2 update_conv')
  have rp1: "resolve_price w tx_id ?d1 = Some v" by (simp add: resolve_price_def)
  have rp2: "resolve_price w tx_id ?d2 = get_live_price (fetch w tx_id) (symbol data)"
    by (simp add: resolve_price_def)
  from assms(1) have d2: "distinct (map fst (portfolio st2))"
    by (simp add: st2 st1 distinct_update)
  from e2 have m2: "(tx_id, ?d2) \<in> set (portfolio st2)" by (rule map_of_SomeD)
  from assms(5) have s2: "status ?d2 = ''ACTIVE''" by simp
  from rp2 assms(6) have rp2': "resolve_price w tx_id ?d2 = Some lp" by simp
  from assms(7) have c2: "compute_percent_change lp (buy_price ?d2) = Inr pc" by simp
  note tick = monitor_market_reprices[OF d2 m2 s2 rp2' c2 assms(8)]
  have unk: "(if map_of (portfolio st) unknown = None
          then simulate_price_movement unknown v st
                 = (Inl (HTTPException 404 ''Transaction not found''), st)
             \<and> clear_simulation unknown st
                 = (Inl (HTTPException 404 ''Transaction not found''), st)
          else True)"
    by (simp add: simulate_price_movement_def clear_simulation_def)
  from e1 rp1 h1 r2 e2 rp2 tick unk show ?thesis by blast
qed

subsection \<open>The theorems at concrete inputs\<close>

lemmas model_defs =
  monitor_market_def monitor_step_def resolve_price_def get_live_price_def method1_def
  method2_def method3_def method4_def accept_price_def compute_percent_change_def
  classify_def crossing_def append_alert_def reset_alert_def simulate_price_movement_def
  clear_simulation_def new_position_def buy_stock_def WATCHLIST_def Let_def

lemma round2_values:
  "round2 94 = 94" "round2 (- 6) = - 6" "round2 102 = 102" "round2 2 = 2" "round2 5 = 5"
  "round2 3500 = 3500" "round2 100 = 100" "round2 105 = 105"
  by code_simp+

text \<open>The theorem at the first buy of a run: the id is 1.\<close>

theorem buy_success_position_witness:
  "fst (buy_stock
        (\<lambda>s. Some \<lparr>last_price = Some 3500, currentPrice = None, regularMarketPrice = None,
                     minute_close = None, daily_close = None\<rparr>)
        ''2026-01-01T10:00:00'' ''TCS.NS'' \<lparr>portfolio = [], alert_history = []\<rparr>)
     = Inr (1, new_position ''TCS.NS'' 3500 ''2026-01-01T10:00:00'')
   \<and> portfolio (snd (buy_stock
        (\<lambda>s. Some \<lparr>last_price = Some 3500, currentPrice = None, regularMarketPrice = None,
                     minute_close = None, daily_close = None\<rparr>)
        ''2026-01-01T10:00:00'' ''TCS.NS'' \<lparr>portfolio = [], alert_history = []\<rparr>))
     = [(1, new_position ''TCS.NS'' 3500 ''2026-01-01T10:00:00'')]"
proof -
  let ?prov = "\<lambda>s::string. Some \<lparr>last_price = Some 3500, currentPrice = None,
                     regularMarketPrice = None, minute_close = None, daily_close = None\<rparr>"
  let ?init = "\<lparr>portfolio = [], alert_history = []\<rparr>"
  have u: "upper ''TCS.NS'' = ''TCS.NS''" by code_simp
  have b: "buy_stock ?prov ''2026-01-01T10:00:00'' ''TCS.NS'' ?init
     = (Inr (1, new_position ''TCS.NS'' 3500 ''2026-01-01T10:00:00''),
        \<lparr>portfolio = [(1, new_position ''TCS.NS'' 3500 ''2026-01-01T10:00:00'')],
         alert_history = []\<rparr>)"
    by (simp add: buy_stock_def u WATCHLIST_def get_live_price_def method1_def
          accept_price_def round2_values Let_def)
  from buy_success_position[OF b] show ?thesis by (simp add: b)
qed

text \<open>
  The reset theorem at a position bought at 100 that has alerted once: after the reset
  and a tick that resolves no price, a tick that looks up 94 appends a LOSS alert after
  the PROFIT alert; resetting the unknown id 2 fails.
\<close>

theorem reset_alert_rearms_witness:
  "map_of (alert_history (snd (monitor_market
      \<lparr>fetch = (\<lambda>k s. Some \<lparr>last_price = Some 94, currentPrice = None,
                  regularMarketPrice = None, minute_close = None, daily_close = None\<rparr>),
       triggered_now = (\<lambda>k. ''2026-01-01T10:00:15.000100''),
       event_now = (\<lambda>k. ''2026-01-01T10:00:15.000200'')\<rparr>
      (run_ticks
        [\<lparr>fetch = (\<lambda>k s. None), triggered_now = (\<lambda>k. ''2026-01-01T10:00:10.000100''),
          event_now = (\<lambda>k. ''2026-01-01T10:00:10.000200'')\<rparr>]
        (snd (reset_alert 1
          \<lparr>portfolio = [(1, (new_position ''TCS.NS'' 100 ''2026-01-01T10:00:00'')
                \<lparr>alert_sent := True, alert_type := Some PROFIT,
                 alert_triggered_at := Some ''2026-01-01T10:00:05.000100''\<rparr>)],
           alert_history = [(1, [\<lparr>ev_timestamp = ''2026-01-01T10:00:05.000200'',
                ev_type = PROFIT, ev_percent_change = 5, ev_current_price = 105,
                ev_buy_price = 100, ev_transaction_id = None\<rparr>])]\<rparr>)))))) 1
    = Some [\<lparr>ev_timestamp = ''2026-01-01T10:00:05.000200'', ev_type = PROFIT,
             ev_percent_change = 5, ev_current_price = 105, ev_buy_price = 100,
             ev_transaction_id = None\<rparr>,
            \<lparr>ev_timestamp = ''2026-01-01T10:00:15.000200'', ev_type = LOSS,
             ev_percent_change = - 6, ev_current_price = 94, ev_buy_price = 100,
             ev_transaction_id = None\<rparr>]
   \<and> reset_alert 2
          \<lparr>portfolio = [(1, (new_position ''TCS.NS'' 100 ''2026-01-01T10:00:00'')
                \<lparr>alert_sent := True, alert_type := Some PROFIT,
                 alert_triggered_at := Some ''2026-01-01T10:00:05.000100''\<rparr>)],
           alert_history = [(1, [\<lparr>ev_timestamp = ''2026-01-01T10:00:05.000200'',
                ev_type = PROFIT, ev_percent_change = 5, ev_current_price = 105,
                ev_buy_price = 100, ev_transaction_id = None\<rparr>])]\<rparr>
     = (Inl (HTTPException 404 ''Transaction not found''),
          \<lparr>portfolio = [(1, (new_position ''TCS.NS'' 100 ''2026-01-01T10:00:00'')
                \<lparr>alert_sent := True, alert_type := Some PROFIT,
                 alert_triggered_at := Some ''2026-01-01T10:00:05.000100''\<rparr>)],
           alert_history = [(1, [\<lparr>ev_timestamp = ''2026-01-01T10:00:05.000200'',
                ev_type = PROFIT, ev_percent_change = 5, ev_current_price = 105,
                ev_buy_price = 100, ev_transaction_id = None\<rparr>])]\<rparr>)"
proof -
  let ?w = "\<lparr>fetch = (\<lambda>k s. Some \<lparr>last_price = Some 94, currentPrice = None,
                  regularMarketPrice = None, minute_close = None, daily_close = None\<rparr>),
       triggered_now = (\<lambda>k. ''2026-01-01T10:00:15.000100''),
       event_now = (\<lambda>k. ''2026-01-01T10:00:15.000200'')\<rparr> :: world"
  let ?wq = "\<lparr>fetch = (\<lambda>k s. None), triggered_now = (\<lambda>k. ''2026-01-01T10:00:10.000100''),
          event_now = (\<lambda>k. ''2026-01-01T10:00:10.000200'')\<rparr> :: world"
  let ?p = "(new_position ''TCS.NS'' 100 ''2026-01-01T10:00:00'')
                \<lparr>alert_sent := True, alert_type := Some PROFIT,
                 alert_triggered_at := Some ''2026-01-01T10:00:05.000100''\<rparr>"
  let ?st = "\<lparr>portfolio = [(1, ?p)],
           alert_history = [(1, [\<lparr>ev_timestamp = ''2026-01-01T10:00:05.000200'',
                ev_type = PROFIT, ev_percent_change = 5, ev_current_price = 105,
                ev_buy_price = 100, ev_transaction_id = None\<rparr>])]\<rparr>"
  have reset: "reset_alert 1 ?st = (fst (reset_alert 1 ?st), snd (reset_alert 1 ?st))"
    by simp
  have completed: "monitor_market ?w (run_ticks [?wq] (snd (reset_alert 1 ?st)))
      = (Inr (), snd (monitor_market ?w (run_ticks [?wq] (snd (reset_alert 1 ?st)))))"
    by (simp add: model_defs round2_values)
  from reset_alert_rearms[where unknown = 2 and cp = 94 and pc = "- 6" and kind = LOSS
      and data = ?p and ws = "[?wq]", OF _ _ reset _ _ _ _ _ completed]
  show ?thesis
    by (simp add: model_defs round2_values)
qed

text \<open>
  The simulation theorem at a position bought at 100: the override 105 is stored, and
  after it is cleared a tick that looks up 102 records 102 and 2 percent.
\<close>

theorem simulation_override_witness:
  "map_of (portfolio (snd (simulate_price_movement 1 105
          \<lparr>portfolio = [(1, new_position ''TCS.NS'' 100 ''2026-01-01T10:00:00'')],
           alert_history = []\<rparr>))) 1
     = Some ((new_position ''TCS.NS'' 100 ''2026-01-01T10:00:00'')
               \<lparr>simulated_current_price := Some 105, alert_sent := False\<rparr>)
   \<and> (\<exists>p3. map_of (portfolio (snd (monitor_market
          \<lparr>fetch = (\<lambda>k s. Some \<lparr>last_price = Some 102, currentPrice = None,
                  regularMarketPrice = None, minute_close = None, daily_close = None\<rparr>),
           triggered_now = (\<lambda>k. ''2026-01-01T10:00:15.000100''),
           event_now = (\<lambda>k. ''2026-01-01T10:00:15.000200'')\<rparr>
          (snd (clear_simulation 1 (snd (simulate_price_movement 1 105
             \<lparr>portfolio = [(1, new_position ''TCS.NS'' 100 ''2026-01-01T10:00:00'')],
              alert_history = []\<rparr>))))))) 1 = Some p3
        \<and> current_price p3 = 102 \<and> percent_change p3 = 2)
   \<and> simulate_price_movement 7 105
          \<lparr>portfolio = [(1, new_position ''TCS.NS'' 100 ''2026-01-01T10:00:00'')],
           alert_history = []\<rparr>
      = (Inl (HTTPException 404 ''Transaction not found''),
          \<lparr>portfolio = [(1, new_position ''TCS.NS'' 100 ''2026-01-01T10:00:00'')],
           alert_history = []\<rparr>)
   \<and> clear_simulation 7
          \<lparr>portfolio = [(1, new_position ''TCS.NS'' 100 ''2026-01-01T10:00:00'')],
           alert_history = []\<rparr>
      = (Inl (HTTPException 404 ''Transaction not found''),
          \<lparr>portfolio = [(1, new_position ''TCS.NS'' 100 ''2026-01-01T10:00:00'')],
           alert_history = []\<rparr>)"
proof -
  let ?w = "\<lparr>fetch = (\<lambda>k s. Some \<lparr>last_price = Some 102, currentPrice = None,
                  regularMarketPrice = None, minute_close = None, daily_close = None\<rparr>),
           triggered_now = (\<lambda>k. ''2026-01-01T10:00:15.000100''),
           event_now = (\<lambda>k. ''2026-01-01T10:00:15.000200'')\<rparr> :: world"
  let ?p = "new_position ''TCS.NS'' 100 ''2026-01-01T10:00:00''"
  let ?st = "\<lparr>portfolio = [(1, ?p)], alert_history = []\<rparr>"
  let ?st1 = "snd (simulate_price_movement 1 105 ?st)"
  let ?st2 = "snd (clear_simulation 1 ?st1)"
  have sim: "simulate_price_movement 1 105 ?st = (fst (simulate_price_movement 1 105 ?st), ?st1)"
    by simp
  have clr: "clear_simulation 1 ?st1 = (fst (clear_simulation 1 ?st1), ?st2)"
    by simp
  have completed: "monitor_market ?w ?st2 = (Inr (), snd (monitor_market ?w ?st2))"
    by (simp add: model_defs round2_values)
  from simulation_override[where unknown = 7 and data = ?p and lp = 102 and pc = 2,
      OF _ _ sim clr _ _ _ completed]
  show ?thesis
    by (simp add: model_defs round2_values)
qed

subsection \<open>The latest alerts\<close>









text \<open>
  Claim C3 does not hold of \<open>get_latest_alerts\<close>. After a buy at 100, a simulated
  price of 105 and one tick, the history holds one event, without the key
  \<open>transaction_id\<close>. Reading the latest alerts stores \<open>transaction_id = 1\<close> in that
  event of the history itself: the stored event is no longer the event as appended.
\<close>

theorem latest_alerts_writes_stored_event:
  "alert_history (snd (monitor_market
       \<lparr>fetch = (\<lambda>k s. None), triggered_now = (\<lambda>k. ''2026-01-01T10:00:05.000100''),
        event_now = (\<lambda>k. ''2026-01-01T10:00:05.000200'')\<rparr>
       (snd (simulate_price_movement 1 105
         (snd (buy_stock
            (\<lambda>s. Some \<lparr>last_price = Some 100, currentPrice = None,
                         regularMarketPrice = None, minute_close = None, daily_close = None\<rparr>)
            ''2026-01-01T10:00:00'' ''TCS.NS'' \<lparr>portfolio = [], alert_history = []\<rparr>))))))
     = [(1, [\<lparr>ev_timestamp = ''2026-01-01T10:00:05.000200'', ev_type = PROFIT,
               ev_percent_change = 5, ev_current_price = 105, ev_buy_price = 100,
               ev_transaction_id = None\<rparr>])]
   \<and> alert_history (snd (get_latest_alerts (snd (monitor_market
       \<lparr>fetch = (\<lambda>k s. None), triggered_now = (\<lambda>k. ''2026-01-01T10:00:05.000100''),
        event_now = (\<lambda>k. ''2026-01-01T10:00:05.000200'')\<rparr>
       (snd (simulate_price_movement 1 105
         (snd (buy_stock
            (\<lambda>s. Some \<lparr>last_price = Some 100, currentPrice = None,
                         regularMarketPrice = None, minute_close = None, daily_close = None\<rparr>)
            ''2026-01-01T10:00:00'' ''TCS.NS'' \<lparr>portfolio = [], alert_history = []\<rparr>))))))))
     = [(1, [\<lparr>ev_timestamp = ''2026-01-01T10:00:05.000200'', ev_type = PROFIT,
               ev_percent_change = 5, ev_current_price = 105, ev_buy_price = 100,
               ev_transaction_id = Some 1\<rparr>])]"
proof -
  have u: "upper ''TCS.NS'' = ''TCS.NS''" by code_simp
  show ?thesis
    by (simp add: model_defs u round2_values get_latest_alerts_def sort_reverse_def)
qed

section \<open>Buy prices and division\<close>

lemma round_half_even_nonneg: "0 \<le> x \<Longrightarrow> 0 \<le> round_half_even x"
  by (auto simp: round_half_even_def Let_def)

lemma round2_nonneg: "0 \<le> x \<Longrightarrow> 0 \<le> round2 x"
  by (simp add: round2_def round_half_even_nonneg)

lemma accept_price_nonneg: "accept_price x = Some p \<Longrightarrow> 0 \<le> p"
  by (auto simp: accept_price_def round2_nonneg split: if_splits)

lemma get_live_price_nonneg: "get_live_price provider ticker = Some p \<Longrightarrow> 0 \<le> p"
  by (auto simp: get_live_price_def method1_def method2_def method3_def method4_def
        split: option.splits if_splits dest: accept_price_nonneg)

lemma set_update_subset: "set (AList.update k v al) \<subseteq> insert (k, v) (set al)"
  by (induction al) auto

lemma list_all_update:
  "P (k, v) \<Longrightarrow> list_all P al \<Longrightarrow> list_all P (AList.update k v al)"
  using set_update_subset[of k v al] by (auto simp: list_all_iff)

lemma buy_stock_positive:
  assumes "list_all (\<lambda>(k, p). 0 < buy_price p) (portfolio st)"
  shows "list_all (\<lambda>(k, p). 0 < buy_price p) (portfolio (snd (buy_stock provider now s st)))"
proof (cases "fst (buy_stock provider now s st)")
  case (Inl e)
  then have "snd (buy_stock provider now s st) = st"
    by (auto simp: buy_stock_def Let_def split: option.splits if_splits)
  with assms show ?thesis by simp
next
  case (Inr res)
  then obtain price where price: "get_live_price provider (upper s) = Some price" "price \<noteq> 0"
    and st': "snd (buy_stock provider now s st) =
        st\<lparr>portfolio := AList.update (int (length (portfolio st)) + 1)
              (new_position (upper s) price now) (portfolio st)\<rparr>"
    by (auto simp: buy_stock_def Let_def split: option.splits if_splits)
  from get_live_price_nonneg[OF price(1)] price(2) have "0 < price" by simp
  then have "0 < buy_price (new_position (upper s) price now)" by (simp add: new_position_def)
  with assms show ?thesis by (simp add: st' list_all_update)
qed

lemma monitor_step_buy_price:
  "monitor_step w k p ah = (r, p', ah') \<Longrightarrow> buy_price p' = buy_price p"
  by (auto simp: monitor_step_def Let_def split: if_splits option.splits sum.splits)

lemma monitor_loop_buy_prices:
  "monitor_loop w pf ah = (r, pf', ah') \<Longrightarrow> map (buy_price \<circ> snd) pf' = map (buy_price \<circ> snd) pf"
proof (induction pf arbitrary: ah r pf' ah')
  case Nil
  then show ?case by simp
next
  case (Cons a pf)
  obtain k p where a: "a = (k, p)" by (cases a)
  obtain rk p1 ah1 where s: "monitor_step w k p ah = (rk, p1, ah1)"
    by (cases "monitor_step w k p ah") auto
  note bp = monitor_step_buy_price[OF s]
  show ?case
  proof (cases rk)
    case (Inl e)
    with Cons.prems a s bp show ?thesis by auto
  next
    case (Inr u)
    obtain r2 pf2 ah2 where l: "monitor_loop w pf ah1 = (r2, pf2, ah2)"
      by (cases "monitor_loop w pf ah1") auto
    from Cons.IH[OF l] Cons.prems a s Inr l bp show ?thesis by auto
  qed
qed

lemma positive_by_prices:
  "list_all (\<lambda>(k, p). 0 < buy_price p) pf = list_all (\<lambda>b. 0 < b) (map (buy_price \<circ> snd) pf)"
  by (induction pf) auto

lemma monitor_market_positive:
  assumes "list_all (\<lambda>(k, p). 0 < buy_price p) (portfolio st)"
  shows "list_all (\<lambda>(k, p). 0 < buy_price p) (portfolio (snd (monitor_market w st)))"
proof -
  have "monitor_market w st = (fst (monitor_market w st), snd (monitor_market w st))" by simp
  from monitor_loop_buy_prices[OF monitor_market_loop[OF this]] assms
  show ?thesis by (simp add: positive_by_prices)
qed

lemma monitor_step_no_error:
  "buy_price p \<noteq> 0 \<Longrightarrow> fst (monitor_step w k p ah) = Inr ()"
  by (simp add: monitor_step_def Let_def compute_percent_change_def
        split: option.splits)

lemma monitor_loop_no_error:
  "list_all (\<lambda>(k, p). 0 < buy_price p) pf \<Longrightarrow> fst (monitor_loop w pf ah) = Inr ()"
proof (induction pf arbitrary: ah)
  case Nil
  then show ?case by simp
next
  case (Cons a pf)
  obtain k p where a: "a = (k, p)" by (cases a)
  with Cons.prems have "buy_price p \<noteq> 0" and rest: "list_all (\<lambda>(k, p). 0 < buy_price p) pf"
    by auto
  from monitor_step_no_error[OF this(1), of w k ah]
  obtain p1 ah1 where s: "monitor_step w k p ah = (Inr (), p1, ah1)"
    by (cases "monitor_step w k p ah") auto
  from Cons.IH[OF rest, of ah1] a s show ?case
    by (auto split: prod.splits)
qed

lemma monitor_market_no_error:
  "list_all (\<lambda>(k, p). 0 < buy_price p) (portfolio st) \<Longrightarrow> fst (monitor_market w st) = Inr ()"
  using monitor_loop_no_error[of "portfolio st" w "alert_history st"]
  by (auto simp: monitor_market_def split: prod.splits)

lemma enrich_no_error:
  "buy_price p \<noteq> 0 \<Longrightarrow> \<exists>p'. enrich w k p = Inr p'"
  by (simp add: enrich_def compute_percent_change_def split: option.splits)

lemma enrich_loop_no_error:
  "list_all (\<lambda>(k, p). 0 < buy_price p) pf \<Longrightarrow> \<exists>pf'. enrich_loop w pf = Inr pf'"
proof (induction pf)
  case Nil
  then show ?case by simp
next
  case (Cons a pf)
  obtain k p where a: "a = (k, p)" by (cases a)
  with Cons.prems have "buy_price p \<noteq> 0" and rest: "list_all (\<lambda>(k, p). 0 < buy_price p) pf"
    by auto
  from enrich_no_error[OF this(1), of w k] obtain p' where "enrich w k p = Inr p'" by blast
  moreover from Cons.IH[OF rest] obtain pf' where "enrich_loop w pf = Inr pf'" by blast
  ultimately show ?case using a by simp
qed

lemma view_portfolio_no_error:
  "list_all (\<lambda>(k, p). 0 < buy_price p) (portfolio st) \<Longrightarrow> \<exists>v. fst (view_portfolio w st) = Inr v"
  using enrich_loop_no_error[of "portfolio st" w]
  by (auto simp: view_portfolio_def)

lemma positive_entry:
  "list_all (\<lambda>(k, p). 0 < buy_price p) pf \<Longrightarrow> map_of pf k = Some data \<Longrightarrow> 0 < buy_price data"
  by (auto simp: list_all_iff dest!: map_of_SomeD)

lemma simulate_no_error:
  assumes "list_all (\<lambda>(k, p). 0 < buy_price p) (portfolio st)"
    and "map_of (portfolio st) k = Some data"
  shows "\<exists>res. fst (simulate_price_movement k v st) = Inr res"
  using positive_entry[OF assms] assms(2)
  by (simp add: simulate_price_movement_def compute_percent_change_def Let_def)

lemma reset_alert_positive:
  assumes "list_all (\<lambda>(k, p). 0 < buy_price p) (portfolio st)"
  shows "list_all (\<lambda>(k, p). 0 < buy_price p) (portfolio (snd (reset_alert k st)))"
proof (cases "map_of (portfolio st) k")
  case None
  with assms show ?thesis by (simp add: reset_alert_def)
next
  case (Some data)
  from positive_entry[OF assms Some] assms Some show ?thesis
    by (simp add: reset_alert_def list_all_update)
qed

lemma simulate_positive:
  assumes "list_all (\<lambda>(k, p). 0 < buy_price p) (portfolio st)"
  shows "list_all (\<lambda>(k, p). 0 < buy_price p) (portfolio (snd (simulate_price_movement k v st)))"
proof (cases "map_of (portfolio st) k")
  case None
  with assms show ?thesis by (simp add: simulate_price_movement_def)
next
  case (Some data)
  from positive_entry[OF assms Some] assms Some show ?thesis
    by (simp add: simulate_price_movement_def Let_def list_all_update split: sum.splits)
qed

lemma clear_positive:
  assumes "list_all (\<lambda>(k, p). 0 < buy_price p) (portfolio st)"
  shows "list_all (\<lambda>(k, p). 0 < buy_price p) (portfolio (snd (clear_simulation k st)))"
proof (cases "map_of (portfolio st) k")
  case None
  with assms show ?thesis by (simp add: clear_simulation_def)
next
  case (Some data)
  from positive_entry[OF assms Some] assms Some show ?thesis
    by (simp add: clear_simulation_def list_all_update)
qed

lemma reachable_positive:
  "reachable st \<Longrightarrow> list_all (\<lambda>(k, p). 0 < buy_price p) (portfolio st)"
proof (induction rule: reachable.induct)
  case start
  show ?case by simp
next
  case (buy st provider now order_symbol)
  from buy.IH show ?case by (rule buy_stock_positive)
next
  case (tick st w)
  from tick.IH show ?case by (rule monitor_market_positive)
next
  case (portfolio_view st w)
  then show ?case by (simp add: view_portfolio_def split: sum.splits)
next
  case (alerts_view st)
  then show ?case by (simp add: view_alerts_def)
next
  case (latest st)
  then show ?case by (simp add: get_latest_alerts_def Let_def split: prod.splits)
next
  case (reset st transaction_id)
  from reset.IH show ?case by (rule reset_alert_positive)
next
  case (simulate st transaction_id simulated)
  from simulate.IH show ?case by (rule simulate_positive)
next
  case (clear st transaction_id)
  from clear.IH show ?case by (rule clear_positive)
qed

text \<open>
  Claim C10, as stated, fails in its first part: a strategy is accepted when its price
  is above 0, but the value returned is that price rounded to two decimals, and a price
  below 0.005 rounds to 0. The lookup of a quote of 0.004 returns the price 0.
\<close>

theorem get_live_price_zero_counterexample:
  "get_live_price
     (\<lambda>s. Some \<lparr>last_price = Some (1 / 250), currentPrice = None, regularMarketPrice = None,
                  minute_close = None, daily_close = None\<rparr>)
     ''TCS.NS'' = Some 0"
proof -
  have "round2 (1 / 250) = 0" by code_simp
  then show ?thesis by (simp add: get_live_price_def method1_def accept_price_def)
qed

text \<open>
  Claim C10, amended. The price lookup returns no price or a price that is not negative;
  \<open>buy_stock\<close> rejects a price of zero, so the position of a successful buy has a
  strictly positive \<open>buy_price\<close>. In every reachable state every stored position has
  a strictly positive \<open>buy_price\<close>, and no division by it raises: the tick of the
  monitor, the portfolio view and the price simulation on a known transaction all
  return without an error.
\<close>

theorem stored_buy_price_positive:
  assumes "reachable st"
  shows "list_all (\<lambda>(k, p). 0 < buy_price p) (portfolio st)
       \<and> fst (monitor_market w st) = Inr ()
       \<and> (\<exists>v. fst (view_portfolio w st) = Inr v)
       \<and> (case map_of (portfolio st) tx_id of
            None \<Rightarrow> True
          | Some data \<Rightarrow> \<exists>res. fst (simulate_price_movement tx_id simulated st) = Inr res)
       \<and> (case get_live_price provider ticker of None \<Rightarrow> True | Some price \<Rightarrow> 0 \<le> price)
       \<and> (case fst (buy_stock provider now order_symbol st) of
            Inl e \<Rightarrow> True
          | Inr (tid, data) \<Rightarrow> 0 < buy_price data)"
proof -
  note pos = reachable_positive[OF assms]
  have sim: "(case map_of (portfolio st) tx_id of
            None \<Rightarrow> True
          | Some data \<Rightarrow> \<exists>res. fst (simulate_price_movement tx_id simulated st) = Inr res)"
    using simulate_no_error[OF pos] by (simp split: option.splits)
  have look: "(case get_live_price provider ticker of None \<Rightarrow> True | Some price \<Rightarrow> 0 \<le> price)"
    by (simp add: get_live_price_nonneg split: option.splits)
  have bought: "(case fst (buy_stock provider now order_symbol st) of
            Inl e \<Rightarrow> True
          | Inr (tid, data) \<Rightarrow> 0 < buy_price data)"
  proof (cases "fst (buy_stock provider now order_symbol st)")
    case (Inl e)
    then show ?thesis by simp
  next
    case (Inr res)
    then obtain price where price: "get_live_price provider (upper order_symbol) = Some price"
      "price \<noteq> 0" and res: "snd res = new_position (upper order_symbol) price now"
      by (auto simp: buy_stock_def Let_def split: option.splits if_splits)
    from get_live_price_nonneg[OF price(1)] price(2) have "0 < price" by simp
    with res Inr show ?thesis by (simp add: new_position_def case_prod_unfold)
  qed
  from pos monitor_market_no_error[OF pos] view_portfolio_no_error[OF pos] sim look bought
  show ?thesis by blast
qed

text \<open>The theorem at the state reached by one buy from the empty state.\<close>

theorem stored_buy_price_positive_witness:
  "reachable (snd (buy_stock
        (\<lambda>s. Some \<lparr>last_price = Some 3500, currentPrice = None, regularMarketPrice = None,
                     minute_close = None, daily_close = None\<rparr>)
        ''2026-01-01T10:00:00'' ''TCS.NS'' \<lparr>portfolio = [], alert_history = []\<rparr>))
   \<and> portfolio (snd (buy_stock
        (\<lambda>s. Some \<lparr>last_price = Some 3500, currentPrice = None, regularMarketPrice = None,
                     minute_close = None, daily_close = None\<rparr>)
        ''2026-01-01T10:00:00'' ''TCS.NS'' \<lparr>portfolio = [], alert_history = []\<rparr>))
      = [(1, new_position ''TCS.NS'' 3500 ''2026-01-01T10:00:00'')]
   \<and> list_all (\<lambda>(k, p). 0 < buy_price p) (portfolio (snd (buy_stock
        (\<lambda>s. Some \<lparr>last_price = Some 3500, currentPrice = None, regularMarketPrice = None,
                     minute_close = None, daily_close = None\<rparr>)
        ''2026-01-01T10:00:00'' ''TCS.NS'' \<lparr>portfolio = [], alert_history = []\<rparr>)))
   \<and> fst (monitor_market
        \<lparr>fetch = (\<lambda>k s. None), triggered_now = (\<lambda>k. ''2026-01-01T10:00:05''),
         event_now = (\<lambda>k. ''2026-01-01T10:00:05'')\<rparr>
        (snd (buy_stock
        (\<lambda>s. Some \<lparr>last_price = Some 3500, currentPrice = None, regularMarketPrice = None,
                     minute_close = None, daily_close = None\<rparr>)
        ''2026-01-01T10:00:00'' ''TCS.NS'' \<lparr>portfolio = [], alert_history = []\<rparr>))) = Inr ()"
proof -
  let ?prov = "\<lambda>s::string. Some \<lparr>last_price = Some 3500, currentPrice = None,
                     regularMarketPrice = None, minute_close = None, daily_close = None\<rparr>"
  let ?st = "snd (buy_stock ?prov ''2026-01-01T10:00:00'' ''TCS.NS''
                \<lparr>portfolio = [], alert_history = []\<rparr>)"
  have r: "reachable ?st" by (rule reachable.buy[OF reachable.start])
  have u: "upper ''TCS.NS'' = ''TCS.NS''" by code_simp
  have p: "portfolio ?st = [(1, new_position ''TCS.NS'' 3500 ''2026-01-01T10:00:00'')]"
    by (simp add: buy_stock_def u WATCHLIST_def get_live_price_def method1_def
          accept_price_def round2_values Let_def)
  from stored_buy_price_positive[OF r,
      of "\<lparr>fetch = (\<lambda>k s. None), triggered_now = (\<lambda>k. ''2026-01-01T10:00:05''),
         event_now = (\<lambda>k. ''2026-01-01T10:00:05'')\<rparr>"] r p
  show ?thesis by blast
qed

section \<open>The stores of a reachable state\<close>

text \<open>
  In every reachable state the two stores are dictionaries, as the theorems above
  assume of them: the ids of the portfolio are 1 to n in the order of insertion, hence
  distinct, and the keys of the alert history are distinct.
\<close>

lemma update_present_keys:
  "map_of al k = Some v \<Longrightarrow> map fst (AList.update k v' al) = map fst al"
  by (auto simp: update_keys dest: map_of_SomeD intro: rev_image_eqI)

lemma monitor_step_history_distinct:
  "distinct (map fst ah) \<Longrightarrow> distinct (map fst (snd (snd (monitor_step w k p ah))))"
  by (simp add: monitor_step_def Let_def distinct_append_alert split: option.splits sum.splits)

lemma monitor_loop_history_distinct:
  "distinct (map fst ah) \<Longrightarrow> distinct (map fst (snd (snd (monitor_loop w pf ah))))"
proof (induction pf arbitrary: ah)
  case Nil
  then show ?case by simp
next
  case (Cons a pf)
  obtain k p where a: "a = (k, p)" by (cases a)
  obtain rk p1 ah1 where s: "monitor_step w k p ah = (rk, p1, ah1)"
    by (cases "monitor_step w k p ah") auto
  from monitor_step_history_distinct[OF Cons.prems, of w k p] s
  have d1: "distinct (map fst ah1)" by simp
  show ?case
  proof (cases rk)
    case (Inl e)
    with a s d1 show ?thesis by simp
  next
    case (Inr u)
    with Cons.IH[OF d1] a s show ?thesis by (auto split: prod.splits)
  qed
qed

lemma collect_latest_keys: "map fst (snd (collect_latest ah)) = map fst ah"
  by (induction ah rule: collect_latest.induct) (auto simp: Let_def split: prod.splits)

lemma reachable_keys:
  "reachable st \<Longrightarrow>
     map fst (portfolio st) = [1..int (length (portfolio st))]
     \<and> distinct (map fst (alert_history st))"
proof (induction rule: reachable.induct)
  case start
  show ?case by simp
next
  case (buy st provider now order_symbol)
  show ?case
  proof (cases "fst (buy_stock provider now order_symbol st)")
    case (Inl e)
    then have "snd (buy_stock provider now order_symbol st) = st"
      by (auto simp: buy_stock_def Let_def split: option.splits if_splits)
    with buy.IH show ?thesis by simp
  next
    case (Inr res)
    then obtain data where st': "snd (buy_stock provider now order_symbol st) =
        st\<lparr>portfolio := AList.update (int (length (portfolio st)) + 1) data (portfolio st)\<rparr>"
      by (auto simp: buy_stock_def Let_def split: option.splits if_splits)
    from buy.IH have keys: "map fst (portfolio st) = [1..int (length (portfolio st))]" by simp
    have "int (length (portfolio st)) + 1 \<notin> set (map fst (portfolio st))"
      by (subst keys) simp
    then have "int (length (portfolio st)) + 1 \<notin> fst ` set (portfolio st)" by simp
    then have "AList.update (int (length (portfolio st)) + 1) data (portfolio st)
        = portfolio st @ [(int (length (portfolio st)) + 1, data)]"
      by (rule update_fresh_key)
    moreover have "[1..int (length (portfolio st)) + 1]
        = [1..int (length (portfolio st))] @ [int (length (portfolio st)) + 1]"
      using upto_rec2[of 1 "int (length (portfolio st)) + 1"] by simp
    ultimately show ?thesis using buy.IH keys by (simp add: st' add.commute)
  qed
next
  case (tick st w)
  have "length (portfolio (snd (monitor_market w st))) = length (portfolio st)"
    using monitor_market_keys[of w st] by (metis length_map)
  moreover have "distinct (map fst (alert_history (snd (monitor_market w st))))"
    using monitor_loop_history_distinct[of "alert_history st" w "portfolio st"] tick.IH
    by (auto simp: monitor_market_def split: prod.splits)
  ultimately show ?case using tick.IH by (simp add: monitor_market_keys)
next
  case (portfolio_view st w)
  then show ?case by (simp add: view_portfolio_def split: sum.splits)
next
  case (alerts_view st)
  then show ?case by (simp add: view_alerts_def)
next
  case (latest st)
  then show ?case
    using collect_latest_keys[of "alert_history st"]
    by (auto simp: get_latest_alerts_def Let_def split: prod.splits)
next
  case (reset st transaction_id)
  show ?case
  proof (cases "map_of (portfolio st) transaction_id")
    case None
    with reset.IH show ?thesis by (simp add: reset_alert_def)
  next
    case (Some data)
    from update_present_keys[OF Some] have "\<And>v. map fst (AList.update transaction_id v (portfolio st))
        = map fst (portfolio st)" .
    moreover from this have "\<And>v. length (AList.update transaction_id v (portfolio st))
        = length (portfolio st)" by (metis length_map)
    ultimately show ?thesis using reset.IH Some by (simp add: reset_alert_def)
  qed
next
  case (simulate st transaction_id simulated)
  show ?case
  proof (cases "map_of (portfolio st) transaction_id")
    case None
    with simulate.IH show ?thesis by (simp add: simulate_price_movement_def)
  next
    case (Some data)
    from update_present_keys[OF Some] have "\<And>v. map fst (AList.update transaction_id v (portfolio st))
        = map fst (portfolio st)" .
    moreover from this have "\<And>v. length (AList.update transaction_id v (portfolio st))
        = length (portfolio st)" by (metis length_map)
    ultimately show ?thesis using simulate.IH Some
      by (simp add: simulate_price_movement_def Let_def split: sum.splits)
  qed
next
  case (clear st transaction_id)
  show ?case
  proof (cases "map_of (portfolio st) transaction_id")
    case None
    with clear.IH show ?thesis by (simp add: clear_simulation_def)
  next
    case (Some data)
    from update_present_keys[OF Some] have "\<And>v. map fst (AList.update transaction_id v (portfolio st))
        = map fst (portfolio st)" .
    moreover from this have "\<And>v. length (AList.update transaction_id v (portfolio st))
        = length (portfolio st)" by (metis length_map)
    ultimately show ?thesis using clear.IH Some by (simp add: clear_simulation_def)
  qed
qed

lemma reachable_distinct:
  "reachable st \<Longrightarrow> distinct (map fst (portfolio st))"
  using reachable_keys[of st] by (metis distinct_upto)

end
